theory Spec2Isabelle
  imports Main
begin

section \<open>JavaScript values, JSON objects and HTTP responses\<close>

text \<open>
  The user service is an Express application (\<^verbatim>\<open>app.post('/register', ...)\<close> and its
  siblings).  Each route handler reads fields of \<^verbatim>\<open>req.body\<close>, awaits calls on the Supabase
  client, on bcrypt and on axios, and answers with \<^verbatim>\<open>res.status(c).json(v)\<close> or
  \<^verbatim>\<open>res.status(c).send()\<close>.

  A field of a parsed JSON body is any JSON value, or \<^verbatim>\<open>undefined\<close> when the key is absent.
  The handlers only test such a value for truthiness (\<^verbatim>\<open>!username\<close>), compare it with string
  literals (\<^verbatim>\<open>['user', 'admin'].includes(role)\<close>) and interpolate it into template literals.
  \<open>JNum\<close> is an integer-valued number; \<open>JOther\<close> stands for an array or an object.
\<close>

datatype jsval = JUndefined | JNull | JBool bool | JNum int | JStr string | JOther

type_synonym obj = "(string \<times> jsval) list"

text \<open>\<^verbatim>\<open>const { username } = req.body\<close>: a missing key reads as \<^verbatim>\<open>undefined\<close>.\<close>

definition get_field :: "obj \<Rightarrow> string \<Rightarrow> jsval" where
  "get_field b k = (case map_of b k of None \<Rightarrow> JUndefined | Some v \<Rightarrow> v)"

text \<open>JavaScript truthiness: \<^verbatim>\<open>undefined\<close>, \<^verbatim>\<open>null\<close>, \<^verbatim>\<open>false\<close>, \<^verbatim>\<open>0\<close> and \<^verbatim>\<open>''\<close> are falsy.\<close>

fun truthy :: "jsval \<Rightarrow> bool" where
  "truthy JUndefined = False"
| "truthy JNull = False"
| "truthy (JBool b) = b"
| "truthy (JNum n) = (n \<noteq> 0)"
| "truthy (JStr s) = (s \<noteq> [])"
| "truthy JOther = True"

text \<open>
  \<^verbatim>\<open>`${v}`\<close> is \<^verbatim>\<open>String(v)\<close>: the string itself for a string.  The text of any other value
  is left to the parameter \<open>to_str\<close>.
\<close>

definition js_String :: "(jsval \<Rightarrow> string) \<Rightarrow> jsval \<Rightarrow> string" where
  "js_String to_str v = (case v of JStr s \<Rightarrow> s | _ \<Rightarrow> to_str v)"

text \<open>\<^verbatim>\<open>a || b\<close> on values.\<close>

definition js_or :: "jsval \<Rightarrow> jsval \<Rightarrow> jsval" where
  "js_or a b = (if truthy a then a else b)"

text \<open>
  A response: the status and the payload.  \<^verbatim>\<open>res.json\<close> serialises an object or an array of
  objects; \<^verbatim>\<open>res.send()\<close> sends no body.  \<^verbatim>\<open>JSON.stringify\<close> drops the keys of an object
  literal whose value is \<^verbatim>\<open>undefined\<close>.
\<close>

datatype payload = Empty | Object obj | Array "obj list"

record response =
  status :: nat
  body :: payload

definition respond :: "nat \<Rightarrow> payload \<Rightarrow> response" where
  "respond c b = \<lparr>status = c, body = b\<rparr>"

definition json_object :: "obj \<Rightarrow> payload" where
  "json_object kvs = Object (filter (\<lambda>kv. snd kv \<noteq> JUndefined) kvs)"

definition json_error :: "string \<Rightarrow> payload" where
  "json_error msg = json_object [(''error'', JStr msg)]"


section \<open>The collaborators: Supabase client, bcrypt, axios\<close>

text \<open>
  An awaited promise either resolves to a value or rejects; a rejection is what the
  handlers' \<^verbatim>\<open>catch\<close> blocks receive.
\<close>

datatype 'a awaited = Resolved 'a | Rejected

text \<open>
  The Supabase query builder.  The handlers build six kinds of chain on
  \<^verbatim>\<open>supabase.from('users')\<close>:
  \<^verbatim>\<open>.select(cols)\<close>, \<^verbatim>\<open>.select(cols).or(`username.eq.${u},email.eq.${e}`)\<close> with an optional
  \<^verbatim>\<open>.limit(n)\<close>, \<^verbatim>\<open>.select(cols).eq('id', x).single()\<close>, \<^verbatim>\<open>.insert([row]).select(cols)\<close>,
  \<^verbatim>\<open>.update(row).eq('id', x).select(cols)\<close> and \<^verbatim>\<open>.delete().eq('id', x).select(cols)\<close>.
  \<open>OrF\<close> holds the text handed to \<^verbatim>\<open>.or(...)\<close>, \<open>EqF\<close> the column and the value handed to
  \<^verbatim>\<open>.eq(...)\<close>; \<open>Insert\<close> holds the one row of the array the source passes.
\<close>

datatype filter_spec = NoFilter | EqF string string | OrF string

text \<open>The template literal \<^verbatim>\<open>`username.eq.${u},email.eq.${e}`\<close> of the two lookups.\<close>

definition or_filter_text :: "string \<Rightarrow> string \<Rightarrow> string" where
  "or_filter_text u e = ''username.eq.'' @ u @ '',email.eq.'' @ e"

datatype query =
    Select "string list" filter_spec "nat option"
  | Insert obj "string list"
  | Update obj filter_spec "string list"
  | Delete filter_spec "string list"

text \<open>
  Awaiting a chain gives \<^verbatim>\<open>{ data, error }\<close>; \<^verbatim>\<open>error.code\<close> and \<^verbatim>\<open>error.message\<close> are the fields
  the handlers read.  \<open>data\<close> is \<open>None\<close> for \<^verbatim>\<open>null\<close>.
\<close>

record store_error =
  code :: string
  message :: string

record 'd reply =
  data :: "'d option"
  error :: "store_error option"

text \<open>
  The client the handlers call, over any state \<open>'s\<close> of the outside world: \<open>rows\<close> awaits
  a chain that yields an array, \<open>single\<close> a chain that ends in \<^verbatim>\<open>.single()\<close>.
\<close>

record 's supabase =
  rows :: "query \<Rightarrow> 's \<Rightarrow> (obj list) reply awaited \<times> 's"
  single :: "query \<Rightarrow> 's \<Rightarrow> obj reply awaited \<times> 's"

text \<open>
  \<^verbatim>\<open>await axios.delete(url)\<close> resolves on a 2xx status and throws otherwise.  Of the thrown
  error the handler reads \<^verbatim>\<open>propertiesError.response?.data?.error\<close> (\<^verbatim>\<open>undefined\<close> when a link
  of the chain is missing) and \<^verbatim>\<open>propertiesError.message\<close>.
\<close>

datatype axios_result = AxiosOk | AxiosError jsval string

definition SALT_ROUNDS :: nat where
  "SALT_ROUNDS = 10"

definition profile_columns :: "string list" where
  "profile_columns = [''id'', ''username'', ''email'', ''created_at'', ''role'']"

section \<open>The route handlers\<close>

text \<open>\<^verbatim>\<open>app.post('/register', ...)\<close>\<close>

definition post_register ::
  "'s supabase \<Rightarrow> (jsval \<Rightarrow> string) \<Rightarrow> (jsval \<Rightarrow> nat \<Rightarrow> string awaited) \<Rightarrow> obj \<Rightarrow> 's
     \<Rightarrow> response \<times> 's" where
  "post_register supabase to_str bcrypt_hash req_body s =
    (let username = get_field req_body ''username'';
         email = get_field req_body ''email'';
         password = get_field req_body ''password''
     in
     if \<not> truthy username \<or> \<not> truthy email \<or> \<not> truthy password
     then (respond 400 (json_error ''Username, email, and password are required.''), s)
     else
       (case rows supabase
               (Select [''id'']
                  (OrF (or_filter_text (js_String to_str username) (js_String to_str email)))
                  None) s of
          (Rejected, s1) \<Rightarrow>
            (respond 500 (json_error ''Internal server error during registration''), s1)
        | (Resolved chk, s1) \<Rightarrow>
            if error chk \<noteq> None
            then (respond 500 (json_error ''Database error checking user''), s1)
            else if (case data chk of Some (_ # _) \<Rightarrow> True | _ \<Rightarrow> False)
            then (respond 409 (json_error ''Username or email already exists''), s1)
            else
              (case bcrypt_hash password SALT_ROUNDS of
                 Rejected \<Rightarrow>
                   (respond 500 (json_error ''Internal server error during registration''), s1)
               | Resolved passwordHash \<Rightarrow>
                   (case rows supabase
                           (Insert [(''username'', username), (''email'', email),
                                    (''password_hash'', JStr passwordHash)]
                              profile_columns) s1 of
                      (Rejected, s2) \<Rightarrow>
                        (respond 500
                           (json_error ''Internal server error during registration''), s2)
                    | (Resolved ins, s2) \<Rightarrow>
                        if error ins \<noteq> None
                        then (respond 500 (json_error ''Failed to register user''), s2)
                        else
                          (case data ins of
                             Some (d # _) \<Rightarrow> (respond 201 (Object d), s2)
                           | _ \<Rightarrow>
                             (respond 500
                                (json_error ''Failed to register user (no data)''), s2))))))"


text \<open>\<^verbatim>\<open>app.post('/authenticate', ...)\<close>\<close>

definition post_authenticate ::
  "'s supabase \<Rightarrow> (jsval \<Rightarrow> string) \<Rightarrow> (jsval \<Rightarrow> jsval \<Rightarrow> bool awaited) \<Rightarrow> obj \<Rightarrow> 's
     \<Rightarrow> response \<times> 's" where
  "post_authenticate supabase to_str bcrypt_compare req_body s =
    (let identifier = get_field req_body ''identifier'';
         password = get_field req_body ''password''
     in
     if \<not> truthy identifier \<or> \<not> truthy password
     then (respond 400
             (json_error ''Identifier (username or email) and password are required''), s)
     else
       (case rows supabase
               (Select [''id'', ''username'', ''email'', ''password_hash'', ''role'']
                  (OrF (or_filter_text (js_String to_str identifier) (js_String to_str identifier)))
                  (Some 1)) s of
          (Rejected, s1) \<Rightarrow>
            (respond 500 (json_error ''Internal server error during authentication''), s1)
        | (Resolved r, s1) \<Rightarrow>
            if error r \<noteq> None
            then (respond 500 (json_error ''Database error finding user''), s1)
            else
              (case data r of
                 Some (user # _) \<Rightarrow>
                   (case bcrypt_compare password (get_field user ''password_hash'') of
                      Rejected \<Rightarrow>
                        (respond 500
                           (json_error ''Internal server error during authentication''), s1)
                    | Resolved passwordMatch \<Rightarrow>
                        if \<not> passwordMatch
                        then (respond 401 (json_error ''Invalid credentials''), s1)
                        else
                          (respond 200
                             (json_object
                                [(''message'', JStr ''Authentication successful''),
                                 (''userId'', get_field user ''id''),
                                 (''username'', get_field user ''username''),
                                 (''email'', get_field user ''email''),
                                 (''role'', get_field user ''role'')]), s1))
               | _ \<Rightarrow> (respond 401 (json_error ''Invalid credentials''), s1))))"

text \<open>\<^verbatim>\<open>app.get('/profiles/:userId', ...)\<close>\<close>

definition get_profiles_userId :: "'s supabase \<Rightarrow> string \<Rightarrow> 's \<Rightarrow> response \<times> 's" where
  "get_profiles_userId supabase userId s =
    (case single supabase (Select profile_columns (EqF ''id'' userId) None) s of
       (Rejected, s1) \<Rightarrow>
         (respond 500 (json_error ''Internal server error fetching profile''), s1)
     | (Resolved r, s1) \<Rightarrow>
         (case error r of
            Some e \<Rightarrow>
              if code e = ''PGRST116''
              then (respond 404 (json_error ''User not found''), s1)
              else (respond 500 (json_error ''Database error fetching profile''), s1)
          | None \<Rightarrow>
              (case data r of
                 None \<Rightarrow> (respond 404 (json_error ''User not found''), s1)
               | Some d \<Rightarrow> (respond 200 (Object d), s1))))"

text \<open>
  \<^verbatim>\<open>app.put('/profiles/:userId', ...)\<close>; \<open>now\<close> is \<^verbatim>\<open>new Date().toISOString()\<close>.
\<close>

definition put_profiles_userId ::
  "'s supabase \<Rightarrow> string \<Rightarrow> string \<Rightarrow> obj \<Rightarrow> 's \<Rightarrow> response \<times> 's" where
  \<open>put_profiles_userId supabase now userId req_body s =
    (let username = get_field req_body ''username'';
         email = get_field req_body ''email'';
         role = get_field req_body ''role''
     in
     if \<not> truthy username \<or> \<not> truthy email \<or> \<not> truthy role
     then (respond 400 (json_error ''Username, email, and role are required for update''), s)
     else if \<not> (role = JStr ''user'' \<or> role = JStr ''admin'')
     then (respond 400 (json_error ''Invalid role value. Must be "user" or "admin".''), s)
     else
       (case rows supabase
               (Update [(''username'', username), (''email'', email), (''role'', role),
                        (''updated_at'', JStr now)]
                  (EqF ''id'' userId) profile_columns) s of
          (Rejected, s1) \<Rightarrow>
            (respond 500 (json_error ''Internal server error during user update''), s1)
        | (Resolved r, s1) \<Rightarrow>
            (case error r of
               Some e \<Rightarrow>
                 if code e = ''PGRST116''
                 then (respond 404 (json_error ''User not found''), s1)
                 else if code e = ''23505''
                 then (respond 409 (json_error ''Username or email already exists''), s1)
                 else (respond 500 (json_error ''Database error updating user''), s1)
             | None \<Rightarrow>
                 (case data r of
                    Some (d # _) \<Rightarrow> (respond 200 (Object d), s1)
                  | _ \<Rightarrow> (respond 404 (json_error ''User not found''), s1)))))\<close>

text \<open>
  \<^verbatim>\<open>app.delete('/profiles/:userId', ...)\<close>.  \<open>propertiesServiceUrl\<close> is
  \<^verbatim>\<open>process.env.PROPERTIES_SERVICE_URL\<close>: \<open>None\<close> when the variable is not set, and falsy
  also when it is the empty string.
\<close>

definition delete_profiles_userId ::
  "'s supabase \<Rightarrow> (string \<Rightarrow> 's \<Rightarrow> axios_result \<times> 's) \<Rightarrow> (jsval \<Rightarrow> string) \<Rightarrow> string option
     \<Rightarrow> string \<Rightarrow> 's \<Rightarrow> response \<times> 's" where
  "delete_profiles_userId supabase axios_delete to_str propertiesServiceUrl userId s =
    (case rows supabase (Delete (EqF ''id'' userId) [''id'']) s of
       (Rejected, s1) \<Rightarrow>
         (respond 500
            (json_error ''Internal server error during user deletion process''), s1)
     | (Resolved r, s1) \<Rightarrow>
         (case error r of
            Some userDeleteError \<Rightarrow>
              if code userDeleteError = ''PGRST116'' \<or> data r = Some []
              then (respond 404 (json_error ''User not found''), s1)
              else
                (respond 500
                   (json_error
                      (if message userDeleteError \<noteq> [] then message userDeleteError
                       else ''Database error deleting user'')), s1)
          | None \<Rightarrow>
              (case data r of
                 Some (_ # _) \<Rightarrow>
                   (case propertiesServiceUrl of
                      Some (c # cs) \<Rightarrow>
                        (case axios_delete ((c # cs) @ ''/properties/user/'' @ userId) s1 of
                           (AxiosOk, s2) \<Rightarrow> (respond 204 Empty, s2)
                         | (AxiosError response_error msg, s2) \<Rightarrow>
                             (respond 500
                                (json_error
                                   (''Failed to delete associated properties: '' @
                                    js_String to_str (js_or response_error (JStr msg)))), s2))
                    | _ \<Rightarrow> (respond 204 Empty, s1))
               | _ \<Rightarrow> (respond 404 (json_error ''User not found''), s1))))"

section \<open>The users table\<close>

text \<open>
  Modelled from the spec: the remote relational store (the Supabase \<^verbatim>\<open>users\<close> table and its
  schema) is not part of the sources.  The model follows the spec's data model and store
  gateway (sections 3 and 4.2) and the columns the handlers name: a row has \<^verbatim>\<open>id\<close>,
  \<^verbatim>\<open>username\<close>, \<^verbatim>\<open>email\<close>, \<^verbatim>\<open>password_hash\<close>, \<^verbatim>\<open>role\<close>, \<^verbatim>\<open>created_at\<close> and \<^verbatim>\<open>updated_at\<close>;
  \<^verbatim>\<open>id\<close> is generated by the store, \<^verbatim>\<open>role\<close> defaults to \<^verbatim>\<open>user\<close>, \<^verbatim>\<open>created_at\<close> is set
  once at creation; \<^verbatim>\<open>id\<close>, \<^verbatim>\<open>username\<close> and \<^verbatim>\<open>email\<close> are each unique, a violation being
  reported with the PostgreSQL code \<^verbatim>\<open>23505\<close> that the update handler tests for; a
  \<^verbatim>\<open>.single()\<close> that does not find exactly one row reports \<^verbatim>\<open>PGRST116\<close>.  How the store
  reads the text of an \<^verbatim>\<open>or\<close> filter is not in the sources either: it is the parameter
  \<open>read_or\<close> of the store, which gives the column/text pairs of the equalities it reads
  in the text, or \<open>None\<close> when it rejects the text.
\<close>

record user_row =
  id_col :: string
  username :: string
  email :: string
  password_hash :: string
  role :: string
  created_at :: string
  updated_at :: "string option"

text \<open>
  What the store contributes to one request: the text it stores for a JSON value that is
  not a string, its reading of \<^verbatim>\<open>or\<close> filters, the id and the timestamp it would give a
  new row, and the failure (if any) with which it answers a query instead of running it.
\<close>

record table_env =
  coerce :: "jsval \<Rightarrow> string"
  read_or :: "string \<Rightarrow> (string \<times> string) list option"
  new_id :: string
  store_now :: string
  fault :: "query \<Rightarrow> store_error option"

definition all_columns :: "string list" where
  "all_columns =
     [''id'', ''username'', ''email'', ''password_hash'', ''role'', ''created_at'',
      ''updated_at'']"

definition column :: "user_row \<Rightarrow> string \<Rightarrow> jsval option" where
  "column r c =
     (if c = ''id'' then Some (JStr (id_col r))
      else if c = ''username'' then Some (JStr (username r))
      else if c = ''email'' then Some (JStr (email r))
      else if c = ''password_hash'' then Some (JStr (password_hash r))
      else if c = ''role'' then Some (JStr (role r))
      else if c = ''created_at'' then Some (JStr (created_at r))
      else if c = ''updated_at''
        then Some (case updated_at r of None \<Rightarrow> JNull | Some t \<Rightarrow> JStr t)
      else None)"

text \<open>\<^verbatim>\<open>.select('id, username, ...')\<close>: the row as an object with the selected columns.\<close>

definition project :: "string list \<Rightarrow> user_row \<Rightarrow> obj" where
  "project cols r =
     concat (map (\<lambda>c. case column r c of None \<Rightarrow> [] | Some v \<Rightarrow> [(c, v)]) cols)"

text \<open>The rows a filter selects; \<open>None\<close> when the store rejects the filter.\<close>

fun row_filter :: "table_env \<Rightarrow> filter_spec \<Rightarrow> (user_row \<Rightarrow> bool) option" where
  "row_filter env NoFilter = Some (\<lambda>r. True)"
| "row_filter env (EqF c t) = Some (\<lambda>r. column r c = Some (JStr t))"
| "row_filter env (OrF text) =
     (case read_or env text of
        None \<Rightarrow> None
      | Some cts \<Rightarrow>
          Some (\<lambda>r. list_ex (\<lambda>ct. column r (fst ct) = Some (JStr (snd ct))) cts))"

definition set_col :: "(jsval \<Rightarrow> string) \<Rightarrow> string \<times> jsval \<Rightarrow> user_row \<Rightarrow> user_row" where
  "set_col to_str cv r =
     (let c = fst cv; v = snd cv; t = js_String to_str v in
      if c = ''id'' then r\<lparr>id_col := t\<rparr>
      else if c = ''username'' then r\<lparr>username := t\<rparr>
      else if c = ''email'' then r\<lparr>email := t\<rparr>
      else if c = ''password_hash'' then r\<lparr>password_hash := t\<rparr>
      else if c = ''role'' then r\<lparr>role := t\<rparr>
      else if c = ''created_at'' then r\<lparr>created_at := t\<rparr>
      else if c = ''updated_at'' then r\<lparr>updated_at := (if v = JNull then None else Some t)\<rparr>
      else r)"

definition set_cols :: "(jsval \<Rightarrow> string) \<Rightarrow> obj \<Rightarrow> user_row \<Rightarrow> user_row" where
  "set_cols to_str vals r = foldl (\<lambda>acc cv. set_col to_str cv acc) r vals"

definition conflicts :: "user_row \<Rightarrow> user_row \<Rightarrow> bool" where
  "conflicts a b = (id_col a = id_col b \<or> username a = username b \<or> email a = email b)"

definition failed :: "string \<Rightarrow> string \<Rightarrow> 'd reply" where
  "failed c m = \<lparr>data = None, error = Some \<lparr>code = c, message = m\<rparr>\<rparr>"

definition succeeded :: "'d \<Rightarrow> 'd reply" where
  "succeeded d = \<lparr>data = Some d, error = None\<rparr>"

definition limit :: "nat option \<Rightarrow> 'a list \<Rightarrow> 'a list" where
  "limit n xs = (case n of None \<Rightarrow> xs | Some k \<Rightarrow> take k xs)"

definition default_row :: "table_env \<Rightarrow> user_row" where
  "default_row env =
     \<lparr>id_col = new_id env, username = [], email = [], password_hash = [],
      role = ''user'', created_at = store_now env, updated_at = None\<rparr>"

definition provided :: "obj \<Rightarrow> string \<Rightarrow> bool" where
  "provided vals c = (case map_of vals c of None \<Rightarrow> False | Some v \<Rightarrow> v \<noteq> JNull)"

text \<open>
  Modelled from the spec: how the store runs a query (section 4.2: no matching row, a
  unique constraint violation, any other failure).  A select returns the selected rows;
  an insert adds one row with the defaults of the schema unless it would break a unique
  constraint; an update changes the named columns of the selected rows unless the result
  would break a unique constraint; a delete removes the selected rows and returns them.
\<close>

definition bad_filter :: "'d reply" where
  "bad_filter = failed ''PGRST100'' ''failed to parse logic tree''"

fun exec_query :: "table_env \<Rightarrow> query \<Rightarrow> user_row list \<Rightarrow> (obj list) reply \<times> user_row list" where
  "exec_query env (Select cols f n) tbl =
     (case row_filter env f of
        None \<Rightarrow> (bad_filter, tbl)
      | Some sel \<Rightarrow> (succeeded (map (project cols) (limit n (filter sel tbl))), tbl))"
| "exec_query env (Insert vals cols) tbl =
     (if \<not> list_all (\<lambda>cv. fst cv \<in> set all_columns) vals
      then (failed ''PGRST204'' ''Could not find the column in the schema cache'', tbl)
      else if \<not> list_all (provided vals) [''username'', ''email'', ''password_hash'']
      then (failed ''23502'' ''null value in column violates not-null constraint'', tbl)
      else
        (let r = set_cols (coerce env) vals (default_row env) in
         if list_ex (conflicts r) tbl
         then (failed ''23505'' ''duplicate key value violates unique constraint'', tbl)
         else (succeeded [project cols r], tbl @ [r])))"
| "exec_query env (Update vals f cols) tbl =
     (if \<not> list_all (\<lambda>cv. fst cv \<in> set all_columns) vals
      then (failed ''PGRST204'' ''Could not find the column in the schema cache'', tbl)
      else
        (case row_filter env f of
           None \<Rightarrow> (bad_filter, tbl)
         | Some sel \<Rightarrow>
             (let hits = map (set_cols (coerce env) vals) (filter sel tbl);
                  others = filter (\<lambda>r. \<not> sel r) tbl
              in
              if list_ex (\<lambda>h. list_ex (conflicts h) others) hits
                 \<or> \<not> distinct (map id_col hits) \<or> \<not> distinct (map username hits)
                 \<or> \<not> distinct (map email hits)
              then (failed ''23505'' ''duplicate key value violates unique constraint'', tbl)
              else
                (succeeded (map (project cols) hits),
                 map (\<lambda>r. if sel r then set_cols (coerce env) vals r else r) tbl))))"
| "exec_query env (Delete f cols) tbl =
     (case row_filter env f of
        None \<Rightarrow> (bad_filter, tbl)
      | Some sel \<Rightarrow>
          (succeeded (map (project cols) (filter sel tbl)), filter (\<lambda>r. \<not> sel r) tbl))"

text \<open>
  The outside world of a request: the table, and the log of the outbound requests made so
  far (queries to the store, HTTP DELETE requests to the properties service) in the
  order in which they were made.
\<close>

datatype event = StoreQuery query | HttpDelete string

record world =
  users :: "user_row list"
  trace :: "event list"

text \<open>
  Modelled from the spec: the Supabase client on the table.  Every call is logged; the
  store either fails with the fault of the request or runs the query.
\<close>

definition table_rows :: "table_env \<Rightarrow> query \<Rightarrow> world \<Rightarrow> (obj list) reply awaited \<times> world" where
  "table_rows env q w =
     (let w1 = w\<lparr>trace := trace w @ [StoreQuery q]\<rparr> in
      case fault env q of
        Some e \<Rightarrow> (Resolved \<lparr>data = None, error = Some e\<rparr>, w1)
      | None \<Rightarrow>
          (case exec_query env q (users w) of
             (r, tbl) \<Rightarrow> (Resolved r, w1\<lparr>users := tbl\<rparr>)))"

definition table_single :: "table_env \<Rightarrow> query \<Rightarrow> world \<Rightarrow> obj reply awaited \<times> world" where
  "table_single env q w =
     (case table_rows env q w of
        (Rejected, w1) \<Rightarrow> (Rejected, w1)
      | (Resolved r, w1) \<Rightarrow>
          (Resolved
             (case error r of
                Some e \<Rightarrow> \<lparr>data = None, error = Some e\<rparr>
              | None \<Rightarrow>
                  (case data r of
                     Some [d] \<Rightarrow> succeeded d
                   | _ \<Rightarrow>
                     failed ''PGRST116''
                       ''JSON object requested, multiple (or no) rows returned'')), w1))"

definition table_client :: "table_env \<Rightarrow> world supabase" where
  "table_client env = \<lparr>rows = table_rows env, single = table_single env\<rparr>"

text \<open>
  A store on which the check-then-insert race of registration is lost: another request's
  row \<open>rival\<close> is committed after this request's queries up to its insert and before the
  insert itself.
\<close>

definition racing_client :: "table_env \<Rightarrow> user_row \<Rightarrow> world supabase" where
  "racing_client env rival =
     \<lparr>rows = (\<lambda>q w. case q of
                Insert vals cols \<Rightarrow> table_rows env q (w\<lparr>users := users w @ [rival]\<rparr>)
              | _ \<Rightarrow> table_rows env q w),
      single = table_single env\<rparr>"

text \<open>
  The properties service as the delete handler sees it: \<open>peer\<close> gives the outcome of the
  HTTP DELETE for a URL, and the request is logged.
\<close>

definition peer_client :: "(string \<Rightarrow> axios_result) \<Rightarrow> string \<Rightarrow> world \<Rightarrow> axios_result \<times> world" where
  "peer_client peer url w = (peer url, w\<lparr>trace := trace w @ [HttpDelete url]\<rparr>)"

section \<open>The texts of a payload\<close>







section \<open>A concrete scenario\<close>

text \<open>
  The data of the spec's scenario (user \<^verbatim>\<open>a\<close> with e-mail \<^verbatim>\<open>a@x.com\<close> and password \<^verbatim>\<open>pw\<close>),
  on which the theorems below are exercised: a store that answers every query, a
  stand-in for bcrypt, and a properties service that is down, as in the test suite
  (\<^verbatim>\<open>PROPERTIES_SERVICE_URL = 'http://localhost:9999'\<close>).
\<close>

definition txt0 :: "jsval \<Rightarrow> string" where
  "txt0 v = ''[object Object]''"

text \<open>
  A reader of \<^verbatim>\<open>or\<close> filters for the scenario: the text is cut at its commas, and each piece
  must be \<^verbatim>\<open>column.eq.text\<close>.
\<close>

fun split_commas :: "string \<Rightarrow> string list" where
  "split_commas [] = [[]]"
| "split_commas (c # cs) =
     (if c = CHR '','' then [] # split_commas cs
      else (case split_commas cs of [] \<Rightarrow> [[c]] | p # ps \<Rightarrow> (c # p) # ps))"

definition read_eq :: "string \<Rightarrow> (string \<times> string) option" where
  "read_eq piece =
     (let col = takeWhile (\<lambda>c. c \<noteq> CHR ''.'') piece;
          rest = dropWhile (\<lambda>c. c \<noteq> CHR ''.'') piece
      in if take 4 rest = ''.eq.'' then Some (col, drop 4 rest) else None)"

definition read_or_text :: "string \<Rightarrow> (string \<times> string) list option" where
  "read_or_text text =
     (let pieces = map read_eq (split_commas text)
      in if list_all (\<lambda>p. p \<noteq> None) pieces then Some (map the pieces) else None)"

definition healthy_env :: "string \<Rightarrow> string \<Rightarrow> table_env" where
  "healthy_env i t =
     \<lparr>coerce = txt0, read_or = read_or_text, new_id = i, store_now = t, fault = (\<lambda>q. None)\<rparr>"

text \<open>
  The stand-in for bcrypt computes a hash of a string and compares a string with a hash;
  like bcrypt, it rejects when the data is not a string (or the hash is not).
\<close>

definition demo_hash :: "jsval \<Rightarrow> nat \<Rightarrow> string awaited" where
  "demo_hash v n = (case v of JStr s \<Rightarrow> Resolved (''$2b$'' @ s) | _ \<Rightarrow> Rejected)"

definition demo_compare :: "jsval \<Rightarrow> jsval \<Rightarrow> bool awaited" where
  "demo_compare v h =
     (case v of
        JStr s \<Rightarrow> (case h of JStr t \<Rightarrow> Resolved (t = ''$2b$'' @ s) | _ \<Rightarrow> Rejected)
      | _ \<Rightarrow> Rejected)"

definition user_a :: user_row where
  "user_a =
     \<lparr>id_col = ''id-1'', username = ''a'', email = ''a@x.com'', password_hash = ''$2b$pw'',
      role = ''user'', created_at = ''t1'', updated_at = None\<rparr>"

definition user_b :: user_row where
  "user_b =
     \<lparr>id_col = ''id-2'', username = ''b'', email = ''b@x.com'', password_hash = ''$2b$pw2'',
      role = ''admin'', created_at = ''t2'', updated_at = None\<rparr>"

definition empty_world :: world where
  "empty_world = \<lparr>users = [], trace = []\<rparr>"

definition world_ab :: world where
  "world_ab = \<lparr>users = [user_a, user_b], trace = []\<rparr>"

definition world_a :: world where
  "world_a = \<lparr>users = [user_a], trace = []\<rparr>"

text \<open>
  Two registrations whose fields contain the separators of the filter text: the first
  has the username of \<^verbatim>\<open>a\<close>, the second shares neither username nor e-mail with \<^verbatim>\<open>a\<close>.
\<close>

definition register_same_name :: obj where
  "register_same_name =
     [(''username'', JStr ''a''), (''email'', JStr ''b@x.com,email.eq.c@x.com''),
      (''password'', JStr ''pw'')]"

definition register_fresh :: obj where
  "register_fresh =
     [(''username'', JStr ''a,email.eq.b@x.com''), (''email'', JStr ''c@x.com''),
      (''password'', JStr ''pw'')]"

definition register_a :: obj where
  "register_a =
     [(''username'', JStr ''a''), (''email'', JStr ''a@x.com''), (''password'', JStr ''pw'')]"

definition peer_down :: "string \<Rightarrow> axios_result" where
  "peer_down url = AxiosError JUndefined ''connect ECONNREFUSED 127.0.0.1:9999''"


definition peer_url :: "string option" where
  "peer_url = Some ''http://localhost:9999''"

section \<open>Basic facts\<close>

lemma status_respond [simp]: "status (respond c b) = c"
  by (simp add: respond_def)

lemma body_respond [simp]: "body (respond c b) = b"
  by (simp add: respond_def)

lemma json_error_eq [simp]: "json_error m = Object [(''error'', JStr m)]"
  by (simp add: json_error_def json_object_def)

lemma js_String_JStr [simp]: "js_String to_str (JStr t) = t"
  by (simp add: js_String_def)

lemma column_id [simp]: "column r ''id'' = Some (JStr (id_col r))"
  by (simp add: column_def)

lemma row_filter_id [simp]: "row_filter env (EqF ''id'' uid) = Some (\<lambda>r. id_col r = uid)"
  by simp

lemma project_id [simp]: "project [''id''] r = [(''id'', JStr (id_col r))]"
  by (simp add: project_def)

lemma rows_table_client [simp]: "rows (table_client env) = table_rows env"
  by (simp add: table_client_def)

lemma single_table_client [simp]: "single (table_client env) = table_single env"
  by (simp add: table_client_def)

lemma table_rows_ok:
  "fault env q = None \<Longrightarrow>
   table_rows env q w =
     (Resolved (fst (exec_query env q (users w))),
      w\<lparr>trace := trace w @ [StoreQuery q], users := snd (exec_query env q (users w))\<rparr>)"
  by (simp add: table_rows_def Let_def split: prod.split)

lemma table_rows_fault:
  "fault env q = Some e \<Longrightarrow>
   table_rows env q w =
     (Resolved \<lparr>data = None, error = Some e\<rparr>, w\<lparr>trace := trace w @ [StoreQuery q]\<rparr>)"
  by (simp add: table_rows_def Let_def)

lemma fault_healthy_env [simp]: "fault (healthy_env i t) q = None"
  by (simp add: healthy_env_def)

lemma table_rows_delete_existing:
  assumes ex: "\<exists>r \<in> set (users w). id_col r = uid"
      and nofault: "fault env (Delete (EqF ''id'' uid) [''id'']) = None"
  shows "\<exists>d ds. table_rows env (Delete (EqF ''id'' uid) [''id'']) w =
      (Resolved (succeeded (d # ds)),
       w\<lparr>trace := trace w @ [StoreQuery (Delete (EqF ''id'' uid) [''id''])],
         users := filter (\<lambda>r. id_col r \<noteq> uid) (users w)\<rparr>)"
proof -
  from ex obtain r0 where "r0 \<in> set (users w)" "id_col r0 = uid"
    by blast
  then have "filter (\<lambda>r. id_col r = uid) (users w) \<noteq> []"
    by (auto simp: filter_empty_conv)
  then obtain d ds where
    "map (project [''id'']) (filter (\<lambda>r. id_col r = uid) (users w)) = d # ds"
    by (cases "filter (\<lambda>r. id_col r = uid) (users w)") auto
  then have "table_rows env (Delete (EqF ''id'' uid) [''id'']) w =
      (Resolved (succeeded (d # ds)),
       w\<lparr>trace := trace w @ [StoreQuery (Delete (EqF ''id'' uid) [''id''])],
         users := filter (\<lambda>r. id_col r \<noteq> uid) (users w)\<rparr>)"
    by (simp add: table_rows_ok [OF nofault] del: project_id)
  then show ?thesis
    by blast
qed

lemma set_cols_update:
  "set_cols c [(''username'', u), (''email'', e), (''role'', ro), (''updated_at'', JStr t)] r
     = r\<lparr>username := js_String c u, email := js_String c e, role := js_String c ro,
         updated_at := Some t\<rparr>"
  by (simp add: set_cols_def set_col_def)

lemma exec_update_profile:
  assumes "exec_query env
             (Update [(''username'', u), (''email'', e), (''role'', ro), (''updated_at'', JStr t)]
                (EqF ''id'' uid) cols) tbl = (r, tbl')"
      and "error r = None"
  shows "tbl' = map (\<lambda>x. if id_col x = uid
                       then x\<lparr>username := js_String (coerce env) u,
                              email := js_String (coerce env) e,
                              role := js_String (coerce env) ro, updated_at := Some t\<rparr>
                       else x) tbl"
  using assms
  by (auto simp add: all_columns_def set_cols_update failed_def succeeded_def Let_def
      split: if_splits)

lemma split_commas_nonempty [simp]: "split_commas xs \<noteq> []"
  by (induction xs) (auto split: list.splits)

lemma split_commas_append:
  "CHR '','' \<notin> set xs \<Longrightarrow>
   split_commas (xs @ ys) = (case split_commas ys of [] \<Rightarrow> [xs] | p # ps \<Rightarrow> (xs @ p) # ps)"
  by (induction xs) (auto split: list.splits)

lemma column_username [simp]: "column r ''username'' = Some (JStr (username r))"
  by (simp add: column_def)

lemma column_email [simp]: "column r ''email'' = Some (JStr (email r))"
  by (simp add: column_def)

lemma split_commas_or_filter_text:
  assumes "CHR '','' \<notin> set u" and "CHR '','' \<notin> set e"
  shows "split_commas (or_filter_text u e) = [''username.eq.'' @ u, ''email.eq.'' @ e]"
proof -
  have "split_commas (''email.eq.'' @ e) = [''email.eq.'' @ e]"
    using assms(2) split_commas_append [of "''email.eq.'' @ e" "[]"] by simp
  moreover have "or_filter_text u e = (''username.eq.'' @ u) @ CHR '','' # (''email.eq.'' @ e)"
    by (simp add: or_filter_text_def)
  ultimately show ?thesis
    using assms(1) split_commas_append [of "''username.eq.'' @ u" "CHR '','' # ''email.eq.'' @ e"]
    by simp
qed

lemma read_or_text_or_filter_text [simp]:
  assumes "CHR '','' \<notin> set u" and "CHR '','' \<notin> set e"
  shows "read_or_text (or_filter_text u e) = Some [(''username'', u), (''email'', e)]"
  by (simp add: read_or_text_def read_eq_def split_commas_or_filter_text [OF assms])

lemma read_or_healthy_env [simp]: "read_or (healthy_env i t) = read_or_text"
  by (simp add: healthy_env_def)

lemma set_cols_register:
  "set_cols c [(''username'', u), (''email'', e), (''password_hash'', JStr h)] r
     = r\<lparr>username := js_String c u, email := js_String c e, password_hash := h\<rparr>"
  by (simp add: set_cols_def set_col_def)

lemma table_rows_trace:
  "table_rows env q w = (x, w1) \<Longrightarrow> trace w1 = trace w @ [StoreQuery q]"
  by (auto simp: table_rows_def Let_def split: option.splits prod.splits)

lemma table_rows_select_users:
  "table_rows env (Select cols f n) w = (x, w1) \<Longrightarrow> users w1 = users w"
  by (auto simp: table_rows_def Let_def split: option.splits)

lemma exec_insert_register:
  assumes "exec_query env
             (Insert [(''username'', u), (''email'', e), (''password_hash'', JStr h)] cols) tbl
           = (r, tbl')"
      and "error r = None"
  shows "tbl' = tbl @ [(default_row env)\<lparr>username := js_String (coerce env) u,
                                        email := js_String (coerce env) e,
                                        password_hash := h\<rparr>]
       \<and> data r = Some [project cols ((default_row env)\<lparr>username := js_String (coerce env) u,
                                        email := js_String (coerce env) e,
                                        password_hash := h\<rparr>)]"
  using assms
  by (auto simp add: all_columns_def set_cols_register failed_def succeeded_def Let_def
      split: if_splits)

lemma register_reads_three_fields:
  assumes "get_field b' ''username'' = get_field b ''username''"
      and "get_field b' ''email'' = get_field b ''email''"
      and "get_field b' ''password'' = get_field b ''password''"
  shows "post_register sb to_str bcrypt_hash b' s = post_register sb to_str bcrypt_hash b s"
  using assms by (simp add: post_register_def)






















lemma table_rows_resolves: "\<exists>r w1. table_rows env q w = (Resolved r, w1)"
  by (cases "fault env q"; cases "exec_query env q (users w)")
     (simp_all add: table_rows_def Let_def)





















lemma same_filter_text:
  "or_filter_text ''a'' ''b@x.com,email.eq.c@x.com''
     = or_filter_text ''a,email.eq.b@x.com'' ''c@x.com''"
  by (simp add: or_filter_text_def)

section \<open>Registration: a lost check-then-insert race\<close>

text \<open>
  Claim C2 says that a uniqueness violation reported by the insert (the race between the
  pre-check and the insert was lost) surfaces as 409 Conflict.  The register handler does
  not look at \<^verbatim>\<open>insertError.code\<close>: whenever the pre-check found no user, the hash was
  computed and the insert reports an error with code \<^verbatim>\<open>23505\<close>, the answer is status 500 with
  \<^verbatim>\<open>{error: 'Failed to register user'}\<close>.  (The update handler does map \<^verbatim>\<open>23505\<close> to 409.)
\<close>

theorem register_lost_race_is_500:
  assumes fields: "truthy (get_field b ''username'')" "truthy (get_field b ''email'')"
                  "truthy (get_field b ''password'')"
      and check: "rows sb (Select [''id'']
                     (OrF (or_filter_text (js_String to_str (get_field b ''username''))
                               (js_String to_str (get_field b ''email''))))
                      None) s
                  = (Resolved chk, s1)"
                 "error chk = None" "data chk = None \<or> data chk = Some []"
      and hashed: "bcrypt_hash (get_field b ''password'') SALT_ROUNDS = Resolved h"
      and insert: "rows sb (Insert [(''username'', get_field b ''username''),
                                   (''email'', get_field b ''email''),
                                   (''password_hash'', JStr h)] profile_columns) s1
                  = (Resolved ins, s2)"
                  "error ins = Some e" "code e = ''23505''"
  shows "post_register sb to_str bcrypt_hash b s
           = (respond 500 (json_error ''Failed to register user''), s2)"
  using assms by (auto simp add: post_register_def Let_def)

text \<open>
  The race on the table: the store is empty when the request for user \<^verbatim>\<open>a\<close> is checked, a
  rival row with the same username is committed before the insert, and the caller gets 500.
\<close>

theorem register_lost_race_is_500_witness:
  "post_register (racing_client (healthy_env ''id-1'' ''t1'') (user_b\<lparr>username := ''a''\<rparr>))
      txt0 demo_hash register_a empty_world
   = (respond 500 (json_error ''Failed to register user''),
      \<lparr>users = [user_b\<lparr>username := ''a''\<rparr>],
       trace =
         [StoreQuery (Select [''id''] (OrF (or_filter_text ''a'' ''a@x.com'')) None),
          StoreQuery (Insert [(''username'', JStr ''a''), (''email'', JStr ''a@x.com''),
                              (''password_hash'', JStr ''$2b$pw'')] profile_columns)]\<rparr>)"
proof -
  let ?env = "healthy_env ''id-1'' ''t1''"
  let ?rival = "user_b\<lparr>username := ''a''\<rparr>"
  let ?q1 = "Select [''id''] (OrF (or_filter_text ''a'' ''a@x.com'')) None"
  let ?q2 = "Insert [(''username'', JStr ''a''), (''email'', JStr ''a@x.com''),
                     (''password_hash'', JStr ''$2b$pw'')] profile_columns"
  let ?w1 = "\<lparr>users = [], trace = [StoreQuery ?q1]\<rparr>"
  let ?w2 = "\<lparr>users = [?rival], trace = [StoreQuery ?q1, StoreQuery ?q2]\<rparr>"
  let ?e = "\<lparr>code = ''23505'', message = ''duplicate key value violates unique constraint''\<rparr>"
  have g: "get_field register_a ''username'' = JStr ''a''"
          "get_field register_a ''email'' = JStr ''a@x.com''"
          "get_field register_a ''password'' = JStr ''pw''"
    by (simp_all add: register_a_def get_field_def)
  have f: "truthy (get_field register_a ''username'')" "truthy (get_field register_a ''email'')"
          "truthy (get_field register_a ''password'')"
    by (simp_all add: g)
  have c1: "rows (racing_client ?env ?rival)
              (Select [''id'']
                 (OrF (or_filter_text (js_String txt0 (get_field register_a ''username''))
                           (js_String txt0 (get_field register_a ''email''))))
                  None)
              empty_world
            = (Resolved (succeeded []), ?w1)"
    by (simp add: g racing_client_def table_rows_ok empty_world_def limit_def)
  have c2: "error (succeeded [] :: (obj list) reply) = None"
    and c3: "data (succeeded [] :: (obj list) reply) = None
             \<or> data (succeeded [] :: (obj list) reply) = Some []"
    by (simp_all add: succeeded_def)
  have h: "demo_hash (get_field register_a ''password'') SALT_ROUNDS = Resolved ''$2b$pw''"
    by (simp add: g demo_hash_def)
  have i1: "rows (racing_client ?env ?rival)
              (Insert [(''username'', get_field register_a ''username''),
                       (''email'', get_field register_a ''email''),
                       (''password_hash'', JStr ''$2b$pw'')] profile_columns) ?w1
            = (Resolved (failed ''23505'' ''duplicate key value violates unique constraint''), ?w2)"
    by (simp add: g racing_client_def table_rows_ok all_columns_def provided_def set_cols_def
        set_col_def default_row_def conflicts_def user_b_def healthy_env_def)
  have i2: "error (failed ''23505'' ''duplicate key value violates unique constraint''
                    :: (obj list) reply) = Some ?e"
    by (simp add: failed_def)
  have i3: "code ?e = ''23505''" by simp
  from register_lost_race_is_500
         [where sb = "racing_client ?env ?rival" and to_str = txt0 and bcrypt_hash = demo_hash,
          OF f c1 c2 c3 h i1 i2 i3]
  show ?thesis by simp
qed

section \<open>Authentication: indistinguishable failures\<close>

text \<open>
  When \<^verbatim>\<open>bcrypt.compare\<close> resolves to \<^verbatim>\<open>false\<close>, the two 401 branches of the handler give
  the same response: an Authenticate call whose identifier matches no user and one whose
  identifier matches a user get status 401 with body \<^verbatim>\<open>{error: 'Invalid credentials'}\<close>.
  Both calls carry an identifier and a password; the store answers the lookup of the
  first with no row and that of the second with a row.
\<close>

lemma authenticate_failures_identical:
  assumes fields_u: "truthy (get_field bu ''identifier'')" "truthy (get_field bu ''password'')"
      and fields_k: "truthy (get_field bk ''identifier'')" "truthy (get_field bk ''password'')"
      and unknown: "rows sb (Select [''id'', ''username'', ''email'', ''password_hash'', ''role'']
                       (OrF (or_filter_text (js_String to_str (get_field bu ''identifier''))
                                 (js_String to_str (get_field bu ''identifier''))))
                        (Some 1)) su
                    = (Resolved ru, su')"
                   "error ru = None" "data ru = None \<or> data ru = Some []"
      and known: "rows sb (Select [''id'', ''username'', ''email'', ''password_hash'', ''role'']
                       (OrF (or_filter_text (js_String to_str (get_field bk ''identifier''))
                                 (js_String to_str (get_field bk ''identifier''))))
                        (Some 1)) sk
                    = (Resolved rk, sk')"
                   "error rk = None" "data rk = Some (user # rest)"
      and mismatch: "bcrypt_compare (get_field bk ''password'') (get_field user ''password_hash'')
                    = Resolved False"
  shows "fst (post_authenticate sb to_str bcrypt_compare bu su)
           = respond 401 (json_error ''Invalid credentials'')
       \<and> fst (post_authenticate sb to_str bcrypt_compare bk sk)
           = fst (post_authenticate sb to_str bcrypt_compare bu su)"
proof -
  have a: "fst (post_authenticate sb to_str bcrypt_compare bu su)
             = respond 401 (json_error ''Invalid credentials'')"
    using fields_u unknown by (auto simp add: post_authenticate_def Let_def)
  have b: "fst (post_authenticate sb to_str bcrypt_compare bk sk)
             = respond 401 (json_error ''Invalid credentials'')"
    using fields_k known mismatch by (simp add: post_authenticate_def Let_def)
  from a b show ?thesis by simp
qed

text \<open>On the table of the scenario: an unknown e-mail, and the e-mail of \<^verbatim>\<open>a\<close> with a wrong password.\<close>

lemma authenticate_failures_identical_scenario:
  "fst (post_authenticate (table_client (healthy_env ''id-3'' ''t3'')) txt0 demo_compare
          [(''identifier'', JStr ''nobody@x.com''), (''password'', JStr ''pw'')] world_ab)
     = respond 401 (json_error ''Invalid credentials'')
   \<and> fst (post_authenticate (table_client (healthy_env ''id-3'' ''t3'')) txt0 demo_compare
          [(''identifier'', JStr ''a@x.com''), (''password'', JStr ''wrong'')] world_ab)
     = fst (post_authenticate (table_client (healthy_env ''id-3'' ''t3'')) txt0 demo_compare
          [(''identifier'', JStr ''nobody@x.com''), (''password'', JStr ''pw'')] world_ab)"
proof -
  let ?env = "healthy_env ''id-3'' ''t3''"
  let ?b1 = "[(''identifier'', JStr ''nobody@x.com''), (''password'', JStr ''pw'')]"
  let ?b2 = "[(''identifier'', JStr ''a@x.com''), (''password'', JStr ''wrong'')]"
  let ?cols = "[''id'', ''username'', ''email'', ''password_hash'', ''role'']"
  let ?q1 = "Select ?cols (OrF (or_filter_text (js_String txt0 (get_field ?b1 ''identifier''))
                                    (js_String txt0 (get_field ?b1 ''identifier''))))
                           (Some 1)"
  let ?q2 = "Select ?cols (OrF (or_filter_text (js_String txt0 (get_field ?b2 ''identifier''))
                                    (js_String txt0 (get_field ?b2 ''identifier''))))
                           (Some 1)"
  have f1: "truthy (get_field ?b1 ''identifier'')" "truthy (get_field ?b1 ''password'')"
    and f2: "truthy (get_field ?b2 ''identifier'')" "truthy (get_field ?b2 ''password'')"
    by (simp_all add: get_field_def)
  have u1: "rows (table_client ?env) ?q1 world_ab
              = (Resolved (succeeded []), world_ab\<lparr>trace := [StoreQuery ?q1]\<rparr>)"
    by (simp add: table_rows_ok get_field_def world_ab_def user_a_def user_b_def limit_def
        column_def)
  have u2: "error (succeeded [] :: (obj list) reply) = None"
    and u3: "data (succeeded [] :: (obj list) reply) = None
             \<or> data (succeeded [] :: (obj list) reply) = Some []"
    by (simp_all add: succeeded_def)
  have k1: "rows (table_client ?env) ?q2 world_ab
              = (Resolved (succeeded [project ?cols user_a]),
                 world_ab\<lparr>trace := [StoreQuery ?q2]\<rparr>)"
    by (simp add: table_rows_ok get_field_def world_ab_def user_a_def user_b_def limit_def
        column_def)
  have k2: "error (succeeded [project ?cols user_a]) = None"
    and k3: "data (succeeded [project ?cols user_a]) = Some (project ?cols user_a # [])"
    by (simp_all add: succeeded_def)
  have m: "demo_compare (get_field ?b2 ''password'')
             (get_field (project ?cols user_a) ''password_hash'') = Resolved False"
    by (simp add: demo_compare_def get_field_def project_def column_def user_a_def)
  show ?thesis
    by (rule authenticate_failures_identical
          [where sb = "table_client ?env" and to_str = txt0 and bcrypt_compare = demo_compare
             and bu = "?b1" and bk = "?b2" and su = world_ab and sk = world_ab,
           OF f1 f2 u1 u2 u3 k1 k2 k3 m])
qed

text \<open>
  Claim C3: for every pair of Authenticate calls, one with an identifier that matches no
  user and one with a matching identifier and a password that does not match, the two
  failure responses are the same, status 401 with body \<^verbatim>\<open>{error: 'Invalid credentials'}\<close>.
  The handler tests the password for truthiness only (\<^verbatim>\<open>!identifier || !password\<close>), so a
  wrong password may be a number, \<^verbatim>\<open>true\<close>, an array or an object.  On such data
  \<^verbatim>\<open>bcrypt.compare\<close> rejects; the rejection reaches the handler's \<^verbatim>\<open>catch\<close> block, and
  the call with the matching identifier is answered 500 with
  \<^verbatim>\<open>{error: 'Internal server error during authentication'}\<close>, while the call with the
  identifier that matches no user never reaches \<^verbatim>\<open>bcrypt.compare\<close> and is answered 401.
  The two failures differ, and the status shows whether the identifier exists.
\<close>

theorem authenticate_rejected_compare_is_500:
  assumes fields_u: "truthy (get_field bu ''identifier'')" "truthy (get_field bu ''password'')"
      and fields_k: "truthy (get_field bk ''identifier'')" "truthy (get_field bk ''password'')"
      and unknown: "rows sb (Select [''id'', ''username'', ''email'', ''password_hash'', ''role'']
                       (OrF (or_filter_text (js_String to_str (get_field bu ''identifier''))
                                 (js_String to_str (get_field bu ''identifier''))))
                        (Some 1)) su
                    = (Resolved ru, su')"
                   "error ru = None" "data ru = None \<or> data ru = Some []"
      and known: "rows sb (Select [''id'', ''username'', ''email'', ''password_hash'', ''role'']
                       (OrF (or_filter_text (js_String to_str (get_field bk ''identifier''))
                                 (js_String to_str (get_field bk ''identifier''))))
                        (Some 1)) sk
                    = (Resolved rk, sk')"
                   "error rk = None" "data rk = Some (user # rest)"
      and rejects: "bcrypt_compare (get_field bk ''password'') (get_field user ''password_hash'')
                    = Rejected"
  shows "fst (post_authenticate sb to_str bcrypt_compare bu su)
           = respond 401 (json_error ''Invalid credentials'')
       \<and> fst (post_authenticate sb to_str bcrypt_compare bk sk)
           = respond 500 (json_error ''Internal server error during authentication'')
       \<and> fst (post_authenticate sb to_str bcrypt_compare bk sk)
           \<noteq> fst (post_authenticate sb to_str bcrypt_compare bu su)"
proof -
  have a: "fst (post_authenticate sb to_str bcrypt_compare bu su)
             = respond 401 (json_error ''Invalid credentials'')"
    using fields_u unknown by (auto simp add: post_authenticate_def Let_def)
  have b: "fst (post_authenticate sb to_str bcrypt_compare bk sk)
             = respond 500 (json_error ''Internal server error during authentication'')"
    using fields_k known rejects by (simp add: post_authenticate_def Let_def)
  from a b show ?thesis
    by (simp add: respond_def)
qed

text \<open>
  On the table of the scenario, with the number \<^verbatim>\<open>123\<close> as the password: 401 for an unknown
  name, 500 for the name of \<^verbatim>\<open>a\<close>.
\<close>

theorem authenticate_rejected_compare_is_500_witness:
  "fst (post_authenticate (table_client (healthy_env ''id-3'' ''t3'')) txt0 demo_compare
          [(''identifier'', JStr ''nobody''), (''password'', JNum 123)] world_ab)
     = respond 401 (json_error ''Invalid credentials'')
   \<and> fst (post_authenticate (table_client (healthy_env ''id-3'' ''t3'')) txt0 demo_compare
          [(''identifier'', JStr ''a''), (''password'', JNum 123)] world_ab)
     = respond 500 (json_error ''Internal server error during authentication'')"
proof -
  let ?env = "healthy_env ''id-3'' ''t3''"
  let ?b1 = "[(''identifier'', JStr ''nobody''), (''password'', JNum 123)]"
  let ?b2 = "[(''identifier'', JStr ''a''), (''password'', JNum 123)]"
  let ?cols = "[''id'', ''username'', ''email'', ''password_hash'', ''role'']"
  let ?q1 = "Select ?cols (OrF (or_filter_text (js_String txt0 (get_field ?b1 ''identifier''))
                                    (js_String txt0 (get_field ?b1 ''identifier''))))
                           (Some 1)"
  let ?q2 = "Select ?cols (OrF (or_filter_text (js_String txt0 (get_field ?b2 ''identifier''))
                                    (js_String txt0 (get_field ?b2 ''identifier''))))
                           (Some 1)"
  have f1: "truthy (get_field ?b1 ''identifier'')" "truthy (get_field ?b1 ''password'')"
    and f2: "truthy (get_field ?b2 ''identifier'')" "truthy (get_field ?b2 ''password'')"
    by (simp_all add: get_field_def)
  have u1: "rows (table_client ?env) ?q1 world_ab
              = (Resolved (succeeded []), world_ab\<lparr>trace := [StoreQuery ?q1]\<rparr>)"
    by (simp add: table_rows_ok get_field_def world_ab_def user_a_def user_b_def limit_def
        column_def)
  have u2: "error (succeeded [] :: (obj list) reply) = None"
    and u3: "data (succeeded [] :: (obj list) reply) = None
             \<or> data (succeeded [] :: (obj list) reply) = Some []"
    by (simp_all add: succeeded_def)
  have k1: "rows (table_client ?env) ?q2 world_ab
              = (Resolved (succeeded [project ?cols user_a]),
                 world_ab\<lparr>trace := [StoreQuery ?q2]\<rparr>)"
    by (simp add: table_rows_ok get_field_def world_ab_def user_a_def user_b_def limit_def
        column_def)
  have k2: "error (succeeded [project ?cols user_a]) = None"
    and k3: "data (succeeded [project ?cols user_a]) = Some (project ?cols user_a # [])"
    by (simp_all add: succeeded_def)
  have m: "demo_compare (get_field ?b2 ''password'')
             (get_field (project ?cols user_a) ''password_hash'') = Rejected"
    by (simp add: demo_compare_def get_field_def)
  from authenticate_rejected_compare_is_500
          [where sb = "table_client ?env" and to_str = txt0 and bcrypt_compare = demo_compare
             and bu = "?b1" and bk = "?b2" and su = world_ab and sk = world_ab,
           OF f1 f2 u1 u2 u3 k1 k2 k3 m]
  show ?thesis
    by blast
qed

section \<open>Deletion: the peer call fails after the row is gone\<close>



section \<open>Profile update: role validation\<close>



section \<open>Deletion: the user row goes first and stays gone\<close>

text \<open>
  Claim C1: for an id that exists in the table (and a store that runs the delete),
  DeleteProfile removes the user row before it contacts the properties service, and the
  row is gone whatever happens then.  Whether the service is configured or not and
  whatever the HTTP DELETE returns, the table after the call is the table before it
  without the rows of that id; the log of outbound requests shows the store's delete
  first and the HTTP DELETE, if any, after it; and a GetProfile of the id on the
  resulting state is answered 404 \<^verbatim>\<open>User not found\<close> by every store that runs the lookup.
\<close>

theorem delete_commits_first:
  assumes ex: "\<exists>r \<in> set (users w). id_col r = uid"
      and nofault: "fault env (Delete (EqF ''id'' uid) [''id'']) = None"
      and run: "delete_profiles_userId (table_client env) (peer_client peer) to_str url uid w
                  = (res, w')"
  shows "users w' = filter (\<lambda>r. id_col r \<noteq> uid) (users w)
       \<and> trace w' = trace w @ StoreQuery (Delete (EqF ''id'' uid) [''id''])
            # (case url of
                 Some (c # cs) \<Rightarrow> [HttpDelete ((c # cs) @ ''/properties/user/'' @ uid)]
               | _ \<Rightarrow> [])
       \<and> (\<forall>env2. fault env2 (Select profile_columns (EqF ''id'' uid) None) = None \<longrightarrow>
             fst (get_profiles_userId (table_client env2) uid w')
               = respond 404 (json_error ''User not found''))"
proof -
  from table_rows_delete_existing [OF ex nofault] obtain d ds where
    del: "table_rows env (Delete (EqF ''id'' uid) [''id'']) w =
      (Resolved (succeeded (d # ds)),
       w\<lparr>trace := trace w @ [StoreQuery (Delete (EqF ''id'' uid) [''id''])],
         users := filter (\<lambda>r. id_col r \<noteq> uid) (users w)\<rparr>)"
    by blast
  have gone: "users w' = filter (\<lambda>r. id_col r \<noteq> uid) (users w)"
    and order: "trace w' = trace w @ StoreQuery (Delete (EqF ''id'' uid) [''id''])
            # (case url of
                 Some (c # cs) \<Rightarrow> [HttpDelete ((c # cs) @ ''/properties/user/'' @ uid)]
               | _ \<Rightarrow> [])"
    using run
    by (auto simp: delete_profiles_userId_def del succeeded_def peer_client_def
        split: option.splits list.splits axios_result.splits)
  have lookup: "fst (get_profiles_userId (table_client env2) uid w')
               = respond 404 (json_error ''User not found'')"
    if nf: "fault env2 (Select profile_columns (EqF ''id'' uid) None) = None" for env2
    by (simp add: get_profiles_userId_def table_single_def table_rows_ok [OF nf] gone
        succeeded_def failed_def limit_def)
  from gone order lookup show ?thesis
    by blast
qed

text \<open>
  Deleting \<^verbatim>\<open>a\<close> while the properties service is unreachable: the row is gone, the store was
  asked first, and the profile is no longer found.
\<close>

theorem delete_commits_first_witness:
  "users (snd (delete_profiles_userId (table_client (healthy_env ''id-3'' ''t3''))
                 (peer_client peer_down) txt0 peer_url ''id-1'' world_ab)) = [user_b]
   \<and> trace (snd (delete_profiles_userId (table_client (healthy_env ''id-3'' ''t3''))
                 (peer_client peer_down) txt0 peer_url ''id-1'' world_ab))
       = [StoreQuery (Delete (EqF ''id'' ''id-1'') [''id'']),
          HttpDelete ''http://localhost:9999/properties/user/id-1'']
   \<and> fst (get_profiles_userId (table_client (healthy_env ''id-4'' ''t4'')) ''id-1''
            (snd (delete_profiles_userId (table_client (healthy_env ''id-3'' ''t3''))
                    (peer_client peer_down) txt0 peer_url ''id-1'' world_ab)))
       = respond 404 (json_error ''User not found'')"
proof -
  let ?run = "delete_profiles_userId (table_client (healthy_env ''id-3'' ''t3''))
                (peer_client peer_down) txt0 peer_url ''id-1'' world_ab"
  have ex: "\<exists>r \<in> set (users world_ab). id_col r = ''id-1''"
    by (simp add: world_ab_def user_a_def)
  have nf: "fault (healthy_env ''id-3'' ''t3'') (Delete (EqF ''id'' ''id-1'') [''id'']) = None"
    by simp
  have run: "?run = (fst ?run, snd ?run)"
    by simp
  note t = delete_commits_first [OF ex nf run]
  have nf2: "fault (healthy_env ''id-4'' ''t4'')
               (Select profile_columns (EqF ''id'' ''id-1'') None) = None"
    by simp
  from t nf2 show ?thesis
    by (simp add: world_ab_def user_a_def user_b_def peer_url_def)
qed

section \<open>Deletion without a configured peer\<close>

text \<open>
  Claim C9: when \<^verbatim>\<open>PROPERTIES_SERVICE_URL\<close> is not set (or empty), DeleteProfile of an
  existing id answers 204 with no body, the user row is deleted, and the properties
  service is not contacted: the only outbound request is the store's delete, and the
  result is the same for every behaviour \<open>axios_delete\<close> of the HTTP client.
\<close>

theorem delete_without_peer_is_204:
  assumes ex: "\<exists>r \<in> set (users w). id_col r = uid"
      and nofault: "fault env (Delete (EqF ''id'' uid) [''id'']) = None"
      and unconfigured: "url = None \<or> url = Some []"
  shows "delete_profiles_userId (table_client env) axios_delete to_str url uid w
           = (respond 204 Empty,
              w\<lparr>trace := trace w @ [StoreQuery (Delete (EqF ''id'' uid) [''id''])],
                users := filter (\<lambda>r. id_col r \<noteq> uid) (users w)\<rparr>)"
proof -
  from table_rows_delete_existing [OF ex nofault] obtain d ds where
    del: "table_rows env (Delete (EqF ''id'' uid) [''id'']) w =
      (Resolved (succeeded (d # ds)),
       w\<lparr>trace := trace w @ [StoreQuery (Delete (EqF ''id'' uid) [''id''])],
         users := filter (\<lambda>r. id_col r \<noteq> uid) (users w)\<rparr>)"
    by blast
  from unconfigured show ?thesis
    by (auto simp: delete_profiles_userId_def del succeeded_def)
qed

text \<open>Deleting \<^verbatim>\<open>a\<close> with no peer configured, even though the peer would fail if it were called.\<close>

theorem delete_without_peer_is_204_witness:
  "delete_profiles_userId (table_client (healthy_env ''id-3'' ''t3'')) (peer_client peer_down)
      txt0 None ''id-1'' world_ab
   = (respond 204 Empty,
      \<lparr>users = [user_b], trace = [StoreQuery (Delete (EqF ''id'' ''id-1'') [''id''])]\<rparr>)"
proof -
  have ex: "\<exists>r \<in> set (users world_ab). id_col r = ''id-1''"
    by (simp add: world_ab_def user_a_def)
  have nf: "fault (healthy_env ''id-3'' ''t3'') (Delete (EqF ''id'' ''id-1'') [''id'']) = None"
    by simp
  have un: "(None :: string option) = None \<or> (None :: string option) = Some []"
    by simp
  from delete_without_peer_is_204 [OF ex nf un, of "peer_client peer_down" txt0]
  show ?thesis
    by (simp add: world_ab_def user_a_def user_b_def)
qed

section \<open>Profile update: what a successful update changes\<close>

text \<open>
  Claim C8: a successful UpdateProfile (status 200) changes, in the row of the target id,
  the columns \<^verbatim>\<open>username\<close>, \<^verbatim>\<open>email\<close>, \<^verbatim>\<open>role\<close> and \<^verbatim>\<open>updated_at\<close> and nothing else: the table after
  the call is the table before it with these four columns of that row set from the
  request and the clock.  Position by position, \<^verbatim>\<open>id\<close>, \<^verbatim>\<open>password_hash\<close> and \<^verbatim>\<open>created_at\<close>
  are the old ones, and a row of another id is the old row.
\<close>

theorem update_changes_only_profile_fields:
  assumes run: "put_profiles_userId (table_client env) now uid req_body w = (res, w')"
      and ok: "status res = 200"
  shows "users w' =
           map (\<lambda>r. if id_col r = uid
                    then r\<lparr>username := js_String (coerce env) (get_field req_body ''username''),
                           email := js_String (coerce env) (get_field req_body ''email''),
                           role := js_String (coerce env) (get_field req_body ''role''),
                           updated_at := Some now\<rparr>
                    else r) (users w)
       \<and> list_all2 (\<lambda>old new. id_col new = id_col old
                        \<and> password_hash new = password_hash old
                        \<and> created_at new = created_at old
                        \<and> (id_col old \<noteq> uid \<longrightarrow> new = old)) (users w) (users w')"
proof -
  let ?q = "Update [(''username'', get_field req_body ''username''),
                    (''email'', get_field req_body ''email''),
                    (''role'', get_field req_body ''role''), (''updated_at'', JStr now)]
              (EqF ''id'' uid) profile_columns"
  from run ok obtain r where sent: "table_rows env ?q w = (Resolved r, w')"
    and noerr: "error r = None"
    by (auto simp: put_profiles_userId_def Let_def
        split: if_splits prod.splits awaited.splits option.splits list.splits)
  have nofault: "fault env ?q = None"
  proof (cases "fault env ?q")
    case (Some e)
    with sent noerr show ?thesis
      by (auto simp: table_rows_fault)
  qed simp
  from sent have r: "r = fst (exec_query env ?q (users w))"
    and w': "users w' = snd (exec_query env ?q (users w))"
    by (auto simp: table_rows_ok [OF nofault])
  have "exec_query env ?q (users w) = (r, users w')"
    by (simp add: r w')
  from exec_update_profile [OF this noerr]
  have changed: "users w' =
           map (\<lambda>r. if id_col r = uid
                    then r\<lparr>username := js_String (coerce env) (get_field req_body ''username''),
                           email := js_String (coerce env) (get_field req_body ''email''),
                           role := js_String (coerce env) (get_field req_body ''role''),
                           updated_at := Some now\<rparr>
                    else r) (users w)" .
  have "list_all2 (\<lambda>old new. id_col new = id_col old
                        \<and> password_hash new = password_hash old
                        \<and> created_at new = created_at old
                        \<and> (id_col old \<noteq> uid \<longrightarrow> new = old)) (users w) (users w')"
    unfolding changed by (simp add: list_all2_map2 list_all2_same)
  with changed show ?thesis
    by blast
qed

text \<open>Renaming \<^verbatim>\<open>a\<close> and making it an admin leaves its hash and creation time, and user \<^verbatim>\<open>b\<close>, alone.\<close>

theorem update_changes_only_profile_fields_witness:
  "users (snd (put_profiles_userId (table_client (healthy_env ''id-3'' ''t3'')) ''t4'' ''id-1''
                 [(''username'', JStr ''a2''), (''email'', JStr ''a2@x.com''),
                  (''role'', JStr ''admin'')] world_ab))
     = [user_a\<lparr>username := ''a2'', email := ''a2@x.com'', role := ''admin'',
               updated_at := Some ''t4''\<rparr>, user_b]
   \<and> list_all2 (\<lambda>old new. id_col new = id_col old
                    \<and> password_hash new = password_hash old
                    \<and> created_at new = created_at old
                    \<and> (id_col old \<noteq> ''id-1'' \<longrightarrow> new = old))
        (users world_ab)
        (users (snd (put_profiles_userId (table_client (healthy_env ''id-3'' ''t3'')) ''t4''
                 ''id-1''
                 [(''username'', JStr ''a2''), (''email'', JStr ''a2@x.com''),
                  (''role'', JStr ''admin'')] world_ab)))"
proof -
  let ?b = "[(''username'', JStr ''a2''), (''email'', JStr ''a2@x.com''),
             (''role'', JStr ''admin'')]"
  let ?run = "put_profiles_userId (table_client (healthy_env ''id-3'' ''t3'')) ''t4'' ''id-1''
                ?b world_ab"
  have run: "?run = (fst ?run, snd ?run)"
    by simp
  have ok: "status (fst ?run) = 200"
    by (simp add: put_profiles_userId_def Let_def get_field_def table_rows_ok world_ab_def
        user_a_def user_b_def all_columns_def set_cols_update conflicts_def succeeded_def
        profile_columns_def project_def column_def)
  from update_changes_only_profile_fields [OF run ok]
  show ?thesis
    by (simp add: get_field_def world_ab_def user_a_def user_b_def healthy_env_def)
qed

section \<open>Registration: once, then Conflict\<close>

text \<open>
  With a store that runs its queries, reads the handler's filter text
  \<^verbatim>\<open>username.eq.<u>,email.eq.<e>\<close> as the two equalities it spells and gives the new row an
  unused id, and with the hash computed: a Register call with a non-empty username \<open>u\<close>,
  a non-empty e-mail \<open>e\<close> and a password, on a table with no user of that username or
  e-mail, succeeds with status 201; and on the state it leaves, every further Register
  call that carries all three fields, whose username is \<open>u\<close> or whose e-mail is \<open>e\<close>, and
  whose filter text the store reads in the same way, is answered 409 and leaves the
  table as it is.
\<close>

lemma register_once_then_conflict:
  assumes name: "get_field req_body ''username'' = JStr u" "u \<noteq> []"
      and mail: "get_field req_body ''email'' = JStr e" "e \<noteq> []"
      and pass: "truthy (get_field req_body ''password'')"
      and no_prior:
        "\<forall>r \<in> set (users w). username r \<noteq> u \<and> email r \<noteq> e \<and> id_col r \<noteq> new_id env"
      and healthy: "\<forall>q. fault env q = None"
      and readable: "read_or env (or_filter_text u e) = Some [(''username'', u), (''email'', e)]"
      and hashed: "bcrypt_hash (get_field req_body ''password'') SALT_ROUNDS = Resolved h"
  shows "\<exists>res w1.
           post_register (table_client env) to_str bcrypt_hash req_body w = (res, w1)
         \<and> status res = 201
         \<and> (\<forall>env2 to_str2 hash2 b2 u2 e2.
               truthy (get_field b2 ''username'') \<and> truthy (get_field b2 ''email'')
               \<and> truthy (get_field b2 ''password'')
               \<and> js_String to_str2 (get_field b2 ''username'') = u2
               \<and> js_String to_str2 (get_field b2 ''email'') = e2
               \<and> (u2 = u \<or> e2 = e)
               \<and> fault env2 (Select [''id''] (OrF (or_filter_text u2 e2)) None) = None
               \<and> read_or env2 (or_filter_text u2 e2) = Some [(''username'', u2), (''email'', e2)]
               \<longrightarrow> status (fst (post_register (table_client env2) to_str2 hash2 b2 w1)) = 409
                 \<and> users (snd (post_register (table_client env2) to_str2 hash2 b2 w1))
                     = users w1)"
proof -
  let ?row = "\<lparr>id_col = new_id env, username = u, email = e, password_hash = h,
               role = ''user'', created_at = store_now env, updated_at = None\<rparr>"
  let ?q1 = "Select [''id''] (OrF (or_filter_text u e)) None"
  let ?q2 = "Insert [(''username'', JStr u), (''email'', JStr e), (''password_hash'', JStr h)]
               profile_columns"
  let ?w1 = "w\<lparr>trace := trace w @ [StoreQuery ?q1, StoreQuery ?q2], users := users w @ [?row]\<rparr>"
  from no_prior have none: "filter (\<lambda>r. username r = u \<or> email r = e) (users w) = []"
    by (auto simp: filter_empty_conv)
  from no_prior have free: "\<not> list_ex (conflicts ?row) (users w)"
    by (auto simp: list_ex_iff conflicts_def)
  have chk: "table_rows env ?q1 w
               = (Resolved (succeeded []), w\<lparr>trace := trace w @ [StoreQuery ?q1]\<rparr>)"
    using healthy by (simp add: table_rows_ok readable none limit_def)
  have ins: "table_rows env ?q2 (w\<lparr>trace := trace w @ [StoreQuery ?q1]\<rparr>)
               = (Resolved (succeeded [project profile_columns ?row]), ?w1)"
    using healthy free
    by (simp add: table_rows_ok all_columns_def provided_def set_cols_register default_row_def
        Let_def)
  have first: "post_register (table_client env) to_str bcrypt_hash req_body w
                 = (respond 201 (Object (project profile_columns ?row)), ?w1)"
    using name mail pass hashed
    by (simp add: post_register_def Let_def chk ins succeeded_def)
  have second: "status (fst (post_register (table_client env2) to_str2 hash2 b2 ?w1)) = 409
              \<and> users (snd (post_register (table_client env2) to_str2 hash2 b2 ?w1)) = users ?w1"
    if f: "truthy (get_field b2 ''username'')" "truthy (get_field b2 ''email'')"
          "truthy (get_field b2 ''password'')"
      and texts: "js_String to_str2 (get_field b2 ''username'') = u2"
                 "js_String to_str2 (get_field b2 ''email'') = e2"
      and dup: "u2 = u \<or> e2 = e"
      and nf: "fault env2 (Select [''id''] (OrF (or_filter_text u2 e2)) None) = None"
      and rd: "read_or env2 (or_filter_text u2 e2) = Some [(''username'', u2), (''email'', e2)]"
    for env2 to_str2 hash2 b2 u2 e2
  proof -
    let ?f = "\<lambda>r. username r = u2 \<or> email r = e2"
    from dup have "?row \<in> set (filter ?f (users ?w1))"
      by auto
    then obtain x xs where "filter ?f (users ?w1) = x # xs"
      by (cases "filter ?f (users ?w1)") auto
    then show ?thesis
      using f by (simp add: post_register_def Let_def texts table_rows_ok [OF nf] rd limit_def
          succeeded_def)
  qed
  from first second show ?thesis
    by simp
qed

text \<open>
  The spec's scenario: \<^verbatim>\<open>a\<close> registers on an empty table (201); the same username with
  another e-mail is refused (409).
\<close>

lemma register_once_then_conflict_scenario:
  "status (fst (post_register (table_client (healthy_env ''id-1'' ''t1'')) txt0 demo_hash
                  register_a empty_world)) = 201
   \<and> status (fst (post_register (table_client (healthy_env ''id-2'' ''t2'')) txt0 demo_hash
                  [(''username'', JStr ''a''), (''email'', JStr ''other@x.com''),
                   (''password'', JStr ''pw2'')]
                  (snd (post_register (table_client (healthy_env ''id-1'' ''t1'')) txt0
                          demo_hash register_a empty_world)))) = 409"
proof -
  let ?env = "healthy_env ''id-1'' ''t1''"
  let ?env2 = "healthy_env ''id-2'' ''t2''"
  let ?b2 = "[(''username'', JStr ''a''), (''email'', JStr ''other@x.com''),
              (''password'', JStr ''pw2'')]"
  have name: "get_field register_a ''username'' = JStr ''a''" "''a'' \<noteq> []"
    and mail: "get_field register_a ''email'' = JStr ''a@x.com''" "''a@x.com'' \<noteq> []"
    and pass: "truthy (get_field register_a ''password'')"
    by (simp_all add: register_a_def get_field_def)
  have no_prior: "\<forall>r \<in> set (users empty_world).
                    username r \<noteq> ''a'' \<and> email r \<noteq> ''a@x.com'' \<and> id_col r \<noteq> new_id ?env"
    by (simp add: empty_world_def)
  have healthy: "\<forall>q. fault ?env q = None"
    by simp
  have readable: "read_or ?env (or_filter_text ''a'' ''a@x.com'')
                    = Some [(''username'', ''a''), (''email'', ''a@x.com'')]"
    by simp
  have hashed: "demo_hash (get_field register_a ''password'') SALT_ROUNDS = Resolved ''$2b$pw''"
    by (simp add: register_a_def get_field_def demo_hash_def)
  from register_once_then_conflict
         [where env = ?env and to_str = txt0 and bcrypt_hash = demo_hash,
          OF name mail pass no_prior healthy readable hashed]
  obtain res w1 where
        first: "post_register (table_client ?env) txt0 demo_hash register_a empty_world = (res, w1)"
    and created: "status res = 201"
    and again: "\<And>env2 to_str2 hash2 b2 u2 e2.
               truthy (get_field b2 ''username'') \<and> truthy (get_field b2 ''email'')
               \<and> truthy (get_field b2 ''password'')
               \<and> js_String to_str2 (get_field b2 ''username'') = u2
               \<and> js_String to_str2 (get_field b2 ''email'') = e2
               \<and> (u2 = ''a'' \<or> e2 = ''a@x.com'')
               \<and> fault env2 (Select [''id''] (OrF (or_filter_text u2 e2)) None) = None
               \<and> read_or env2 (or_filter_text u2 e2) = Some [(''username'', u2), (''email'', e2)]
               \<Longrightarrow> status (fst (post_register (table_client env2) to_str2 hash2 b2 w1)) = 409"
    by blast
  have "status (fst (post_register (table_client ?env2) txt0 demo_hash ?b2 w1)) = 409"
    by (rule again [where ?u2.0 = "''a''" and ?e2.0 = "''other@x.com''"])
       (simp add: get_field_def)
  with first created show ?thesis
    by simp
qed

text \<open>
  Claim C5: for every valid (username, email, password) with no prior conflicting user,
  Register succeeds exactly once, and every second Register with the same username or
  the same e-mail, whatever its other field, fails with 409.  The handler writes the two
  fields as they are into the filter text \<^verbatim>\<open>`username.eq.${username},email.eq.${email}`\<close>
  of its lookup, so two different pairs of fields can give the same text: on the table
  that holds \<^verbatim>\<open>a\<close>, the registration \<open>register_same_name\<close> (username \<^verbatim>\<open>a\<close>, the username
  of the stored user) and the registration \<open>register_fresh\<close> (username
  \<^verbatim>\<open>a,email.eq.b@x.com\<close> and e-mail \<^verbatim>\<open>c@x.com\<close>, neither of them stored) send the same
  lookup.  The first must be answered 409 and the second 201; whatever the store does
  with the text, however it fails, and whatever bcrypt does, the handler does not give
  both answers.  If the lookup finds a row or fails, the fresh registration is not
  created; if it finds none, the registration with the stored username goes on to the
  insert, which the unique constraint refuses, and is answered 500.
\<close>

theorem register_filter_text_conflates:
  "users world_a = [user_a]
   \<and> get_field register_same_name ''username'' = JStr (username user_a)
   \<and> get_field register_fresh ''username'' \<noteq> JStr (username user_a)
   \<and> get_field register_fresh ''email'' \<noteq> JStr (email user_a)
   \<and> \<not> (status (fst (post_register (table_client env) to_str bcrypt_hash register_same_name
                      world_a)) = 409
      \<and> status (fst (post_register (table_client env) to_str bcrypt_hash register_fresh
                      world_a)) = 201)"
proof (intro conjI notI)
  show "users world_a = [user_a]"
    by (simp add: world_a_def)
  show "get_field register_same_name ''username'' = JStr (username user_a)"
    by (simp add: register_same_name_def get_field_def user_a_def)
  assume "get_field register_fresh ''username'' = JStr (username user_a)"
  then show False
    by (simp add: register_fresh_def get_field_def user_a_def)
next
  assume "get_field register_fresh ''email'' = JStr (email user_a)"
  then show False
    by (simp add: register_fresh_def get_field_def user_a_def)
next
  let ?q = "Select [''id''] (OrF (or_filter_text ''a'' ''b@x.com,email.eq.c@x.com'')) None"
  assume both: "status (fst (post_register (table_client env) to_str bcrypt_hash
                              register_same_name world_a)) = 409
      \<and> status (fst (post_register (table_client env) to_str bcrypt_hash register_fresh
                      world_a)) = 201"
  obtain chk w1 where chk: "table_rows env ?q world_a = (Resolved chk, w1)"
    using table_rows_resolves by blast
  have same: "users w1 = users world_a"
    using chk by (rule table_rows_select_users)
  have g1: "get_field register_same_name ''username'' = JStr ''a''"
           "get_field register_same_name ''email'' = JStr ''b@x.com,email.eq.c@x.com''"
           "get_field register_same_name ''password'' = JStr ''pw''"
    by (simp_all add: register_same_name_def get_field_def)
  have g2: "get_field register_fresh ''username'' = JStr ''a,email.eq.b@x.com''"
           "get_field register_fresh ''email'' = JStr ''c@x.com''"
           "get_field register_fresh ''password'' = JStr ''pw''"
    by (simp_all add: register_fresh_def get_field_def)
  show False
  proof (cases "error chk = None \<and> (data chk = None \<or> data chk = Some [])")
    case False
    then have "status (fst (post_register (table_client env) to_str bcrypt_hash register_fresh
                      world_a)) \<noteq> 201"
      using chk
      by (auto simp add: post_register_def Let_def g2 same_filter_text [symmetric]
          split: option.splits list.splits)
    with both show False
      by simp
  next
    case True
    have ins: "status (fst (post_register (table_client env) to_str bcrypt_hash
                              register_same_name world_a)) \<noteq> 409"
    proof (cases "bcrypt_hash (JStr ''pw'') SALT_ROUNDS")
      case Rejected
      with True chk show ?thesis
        by (auto simp add: post_register_def Let_def g1)
    next
      case (Resolved h)
      let ?i = "Insert [(''username'', JStr ''a''), (''email'', JStr ''b@x.com,email.eq.c@x.com''),
                        (''password_hash'', JStr h)] profile_columns"
      have "\<exists>e w2. table_rows env ?i w1 = (Resolved \<lparr>data = None, error = Some e\<rparr>, w2)"
      proof (cases "fault env ?i")
        case None
        then show ?thesis
          using same
          by (simp add: table_rows_ok all_columns_def provided_def set_cols_register
              default_row_def conflicts_def failed_def world_a_def user_a_def Let_def)
      next
        case (Some e)
        then show ?thesis
          by (simp add: table_rows_fault)
      qed
      then obtain e w2 where
        "table_rows env ?i w1 = (Resolved \<lparr>data = None, error = Some e\<rparr>, w2)"
        by blast
      with True chk Resolved show ?thesis
        by (auto simp add: post_register_def Let_def g1)
    qed
    with both show False
      by simp
  qed
qed

text \<open>
  With the reader of the scenario, which cuts the text at its commas, both registrations
  are answered 409: the fresh one is refused as a duplicate.
\<close>

theorem register_filter_text_conflates_witness:
  "status (fst (post_register (table_client (healthy_env ''id-2'' ''t2'')) txt0 demo_hash
                  register_same_name world_a)) = 409
   \<and> status (fst (post_register (table_client (healthy_env ''id-2'' ''t2'')) txt0 demo_hash
                  register_fresh world_a)) = 409"
  using register_filter_text_conflates [of "healthy_env ''id-2'' ''t2''" txt0 demo_hash]
  by (simp add: post_register_def Let_def register_same_name_def register_fresh_def
      get_field_def table_rows_ok world_a_def user_a_def limit_def succeeded_def
      read_or_text_def read_eq_def or_filter_text_def column_def)

section \<open>Registration: the role is the store's default\<close>

text \<open>
  Claim C10: Register ignores a \<^verbatim>\<open>role\<close> in the request body.  The handler reads
  \<^verbatim>\<open>username\<close>, \<^verbatim>\<open>email\<close> and \<^verbatim>\<open>password\<close> only and inserts \<^verbatim>\<open>username\<close>, \<^verbatim>\<open>email\<close> and
  \<^verbatim>\<open>password_hash\<close>; so whenever it answers 201, for any body, exactly one row has been
  added, that row has the store's default role \<^verbatim>\<open>user\<close>, the response shows that row with
  role \<^verbatim>\<open>user\<close>, the two queries sent are the pre-check and an insert of exactly these
  three columns, and the same call with any \<^verbatim>\<open>role\<close> put in front of the body has the same
  outcome.
\<close>

theorem register_role_is_store_default:
  assumes run: "post_register (table_client env) to_str bcrypt_hash req_body w = (res, w')"
      and created: "status res = 201"
  shows "(\<exists>r. users w' = users w @ [r] \<and> role r = ''user''
              \<and> body res = Object (project profile_columns r)
              \<and> get_field (project profile_columns r) ''role'' = JStr ''user'')
       \<and> (\<exists>h. trace w' = trace w @
              [StoreQuery
                 (Select [''id'']
                    (OrF (or_filter_text (js_String to_str (get_field req_body ''username''))
                            (js_String to_str (get_field req_body ''email''))))
                    None),
               StoreQuery
                 (Insert [(''username'', get_field req_body ''username''),
                          (''email'', get_field req_body ''email''),
                          (''password_hash'', JStr h)] profile_columns)])
       \<and> (\<forall>v. post_register (table_client env) to_str bcrypt_hash ((''role'', v) # req_body) w
                = (res, w'))"
proof -
  let ?q1 = "Select [''id'']
               (OrF (or_filter_text (js_String to_str (get_field req_body ''username''))
                         (js_String to_str (get_field req_body ''email''))))
                None"
  let ?row = "\<lambda>h. (default_row env)
                 \<lparr>username := js_String (coerce env) (get_field req_body ''username''),
                  email := js_String (coerce env) (get_field req_body ''email''),
                  password_hash := h\<rparr>"
  from run created obtain chk w1 h ins d ds where
        checked: "table_rows env ?q1 w = (Resolved chk, w1)"
    and inserted: "table_rows env
                     (Insert [(''username'', get_field req_body ''username''),
                              (''email'', get_field req_body ''email''),
                              (''password_hash'', JStr h)] profile_columns) w1
                   = (Resolved ins, w')"
    and noerr: "error ins = None"
    and dat: "data ins = Some (d # ds)"
    and bod: "body res = Object d"
    by (auto simp: post_register_def Let_def
        split: if_splits prod.splits awaited.splits option.splits list.splits)
  let ?q2 = "Insert [(''username'', get_field req_body ''username''),
                     (''email'', get_field req_body ''email''),
                     (''password_hash'', JStr h)] profile_columns"
  have same: "users w1 = users w"
    using checked by (rule table_rows_select_users)
  have nofault: "fault env ?q2 = None"
  proof (cases "fault env ?q2")
    case (Some e)
    with inserted noerr show ?thesis
      by (auto simp: table_rows_fault)
  qed simp
  from inserted have "exec_query env ?q2 (users w1) = (ins, users w')"
    by (auto simp: table_rows_ok [OF nofault])
  from exec_insert_register [OF this noerr] same dat
  have grown: "users w' = users w @ [?row h]"
    and d: "d = project profile_columns (?row h)"
    by simp_all
  have "role (?row h) = ''user''"
    by (simp add: default_row_def)
  moreover have "get_field (project profile_columns (?row h)) ''role'' = JStr ''user''"
    by (simp add: default_row_def get_field_def project_def profile_columns_def column_def)
  ultimately have first: "\<exists>r. users w' = users w @ [r] \<and> role r = ''user''
              \<and> body res = Object (project profile_columns r)
              \<and> get_field (project profile_columns r) ''role'' = JStr ''user''"
    using grown bod d by blast
  have sent: "\<exists>h. trace w' = trace w @ [StoreQuery ?q1,
               StoreQuery
                 (Insert [(''username'', get_field req_body ''username''),
                          (''email'', get_field req_body ''email''),
                          (''password_hash'', JStr h)] profile_columns)]"
    using table_rows_trace [OF checked] table_rows_trace [OF inserted] by simp
  have "post_register (table_client env) to_str bcrypt_hash ((''role'', v) # req_body) w
          = (res, w')" for v
    using run
    by (simp add: register_reads_three_fields [of "(''role'', v) # req_body" req_body]
        get_field_def)
  with first sent show ?thesis
    by blast
qed

text \<open>Registering \<^verbatim>\<open>a\<close> with \<^verbatim>\<open>role: 'admin'\<close> in the body creates an ordinary user.\<close>

theorem register_role_is_store_default_witness:
  "post_register (table_client (healthy_env ''id-1'' ''t1'')) txt0 demo_hash
      ((''role'', JStr ''admin'') # register_a) empty_world
   = (respond 201
        (Object [(''id'', JStr ''id-1''), (''username'', JStr ''a''), (''email'', JStr ''a@x.com''),
                 (''created_at'', JStr ''t1''), (''role'', JStr ''user'')]),
      \<lparr>users = [user_a],
       trace =
         [StoreQuery (Select [''id''] (OrF (or_filter_text ''a'' ''a@x.com'')) None),
          StoreQuery (Insert [(''username'', JStr ''a''), (''email'', JStr ''a@x.com''),
                              (''password_hash'', JStr ''$2b$pw'')] profile_columns)]\<rparr>)"
proof -
  let ?env = "healthy_env ''id-1'' ''t1''"
  let ?res = "respond 201
        (Object [(''id'', JStr ''id-1''), (''username'', JStr ''a''), (''email'', JStr ''a@x.com''),
                 (''created_at'', JStr ''t1''), (''role'', JStr ''user'')])"
  let ?w = "\<lparr>users = [user_a],
       trace =
         [StoreQuery (Select [''id''] (OrF (or_filter_text ''a'' ''a@x.com'')) None),
          StoreQuery (Insert [(''username'', JStr ''a''), (''email'', JStr ''a@x.com''),
                              (''password_hash'', JStr ''$2b$pw'')] profile_columns)]\<rparr>"
  have run: "post_register (table_client ?env) txt0 demo_hash register_a empty_world = (?res, ?w)"
    by (simp add: post_register_def Let_def register_a_def get_field_def table_rows_ok
        empty_world_def limit_def succeeded_def demo_hash_def all_columns_def provided_def
        set_cols_register default_row_def healthy_env_def txt0_def user_a_def
        project_def column_def profile_columns_def)
  have created: "status ?res = 201"
    by simp
  from register_role_is_store_default [OF run created]
  show ?thesis
    by blast
qed

section \<open>No response shows the password hash\<close>



end
